theory Spec2Isabelle
  imports Complex_Main
begin

section \<open>Numbers and text input\<close>

text \<open>
  The checkout logic of \<^verbatim>\<open>src/components/Sell.tsx\<close> computes with
  JavaScript numbers. Amounts of money are rationals. The cart, the totals and the
  arguments of the sale are computed in exact arithmetic: the rounding of IEEE
  doubles is left out there. The payment computations, whose outcome at the 0.01
  tolerance depends on that rounding, are given a second time in binary64 arithmetic,
  in the section on binary64 below. Overflow to \<^verbatim>\<open>Infinity\<close> and the literal
  \<^verbatim>\<open>Infinity\<close> itself are outside the model. \<^verbatim>\<open>NaN\<close>
  only arises as the result of \<^verbatim>\<open>parseFloat\<close>, and is the value
  \<open>None\<close> there. Quantities and stock levels are whole numbers.
\<close>

type_synonym number = rat

definition isWhiteSpace :: "char \<Rightarrow> bool" where
  "isWhiteSpace c = (of_char c \<in> {9, 10, 11, 12, 13, 32 :: nat})"

definition isDigit :: "char \<Rightarrow> bool" where
  "isDigit c = (48 \<le> (of_char c :: nat) \<and> (of_char c :: nat) \<le> 57)"

definition digitsVal :: "string \<Rightarrow> nat" where
  "digitsVal ds = foldl (\<lambda>a c. 10 * a + (of_char c - 48)) 0 ds"

text \<open>
  The exponent part of a decimal literal, \<^verbatim>\<open>[eE][+-]?digits\<close>. It is
  read only when it is complete; otherwise the literal ends before it.
\<close>

definition exponentPart :: "string \<Rightarrow> int" where
  "exponentPart r =
     (case r of
        [] \<Rightarrow> 0
      | c # r' \<Rightarrow>
          if c = CHR ''e'' \<or> c = CHR ''E'' then
            (case r' of
               [] \<Rightarrow> 0
             | d # r'' \<Rightarrow>
                 if d = CHR ''-'' then
                   (if takeWhile isDigit r'' = [] then 0
                    else - int (digitsVal (takeWhile isDigit r'')))
                 else if d = CHR ''+'' then
                   (if takeWhile isDigit r'' = [] then 0
                    else int (digitsVal (takeWhile isDigit r'')))
                 else
                   (if takeWhile isDigit r' = [] then 0
                    else int (digitsVal (takeWhile isDigit r'))))
          else 0)"

definition scale10 :: "number \<Rightarrow> int \<Rightarrow> number" where
  "scale10 m e = (if 0 \<le> e then m * 10 ^ nat e else m / 10 ^ nat (- e))"

text \<open>
  \<^verbatim>\<open>parseFloat\<close> of ECMAScript: leading white space is skipped, the longest
  prefix that is a decimal literal is read, anything after it is ignored, and the
  result is \<^verbatim>\<open>NaN\<close> (here \<open>None\<close>) when there is no such prefix. A string is a
  list of bytes, so the white space is that of ASCII. The literal
  \<^verbatim>\<open>Infinity\<close>, which has no value among the rationals, is not read; the price,
  discount and split fields are inputs of type number, whose value is a decimal
  literal or the empty string.
\<close>

definition parseUnsigned :: "string \<Rightarrow> number option" where
  "parseUnsigned u =
     (let ip = takeWhile isDigit u;
          r1 = dropWhile isDigit u;
          fp = (case r1 of [] \<Rightarrow> [] | c # r \<Rightarrow> if c = CHR ''.'' then takeWhile isDigit r else []);
          r2 = (case r1 of [] \<Rightarrow> [] | c # r \<Rightarrow> if c = CHR ''.'' then dropWhile isDigit r else r1)
      in if ip = [] \<and> fp = [] then None
         else Some (scale10
                (of_nat (digitsVal ip) + of_nat (digitsVal fp) / 10 ^ length fp)
                (exponentPart r2)))"

definition parseFloat :: "string \<Rightarrow> number option" where
  "parseFloat s =
     (case dropWhile isWhiteSpace s of
        [] \<Rightarrow> None
      | c # r \<Rightarrow>
          if c = CHR ''-'' then map_option uminus (parseUnsigned r)
          else if c = CHR ''+'' then parseUnsigned r
          else parseUnsigned (c # r))"

text \<open>
  The idiom \<^verbatim>\<open>parseFloat(x) || 0\<close>: \<^verbatim>\<open>NaN\<close> and \<open>0\<close> are the
  falsy numbers, and both give \<open>0\<close>.
\<close>

definition orZero :: "number option \<Rightarrow> number" where
  "orZero r = (case r of None \<Rightarrow> 0 | Some n \<Rightarrow> n)"

section \<open>Data model\<close>

text \<open>
  The interfaces \<^verbatim>\<open>Product\<close> and \<^verbatim>\<open>CartItem\<close>, the type
  \<^verbatim>\<open>PaymentMethod\<close> and the state variables of the component
  \<^verbatim>\<open>Sell\<close>. The field \<^verbatim>\<open>price\<close> of a cart item has type
  \<^verbatim>\<open>number | string\<close>: a string while the price field is being edited.
\<close>

record Product =
  prod_id :: string
  prod_name :: string
  prod_category :: string
  prod_price :: number
  prod_stock :: int

datatype price = PNum number | PStr string

record CartItem =
  productId :: string
  productName :: string
  quantity :: int
  price :: price
  originalPrice :: number
  stock :: int

datatype PaymentMethod = Cash | Bank | Telebirr

record PaymentSplits =
  cash :: number
  bank :: number
  telebirr :: number

text \<open>
  The state of the component, as far as the sale is concerned. The selected customer
  is kept by its id; \<open>currentBranchId\<close> is the value of the branch context.
\<close>

record SellState =
  cart :: "CartItem list"
  processing :: bool
  paymentMethod :: PaymentMethod
  paymentSplits :: PaymentSplits
  showSplitPayment :: bool
  discount :: string
  showConfirmation :: bool
  selectedCustomer :: "string option"
  customerName :: string
  customerPhone :: string
  currentBranchId :: string

text \<open>The initial values given to \<^verbatim>\<open>useState\<close>.\<close>

definition noSplits :: PaymentSplits where
  "noSplits = \<lparr>cash = 0, bank = 0, telebirr = 0\<rparr>"

definition initialState :: "string \<Rightarrow> SellState" where
  "initialState branch =
     \<lparr>cart = [], processing = False, paymentMethod = Cash, paymentSplits = noSplits,
      showSplitPayment = False, discount = ''0'', showConfirmation = False,
      selectedCustomer = None, customerName = [], customerPhone = [],
      currentBranchId = branch\<rparr>"

section \<open>Cart operations\<close>

text \<open>
  \<^verbatim>\<open>addToCart\<close> raises an alert and returns before \<^verbatim>\<open>setCart\<close> when the
  line already holds the stock of the product passed in: the result \<open>Inl\<close>, with the
  cart left as it was. Otherwise \<open>Inr\<close> holds the cart given to \<^verbatim>\<open>setCart\<close>.
\<close>

definition addToCart :: "CartItem list \<Rightarrow> Product \<Rightarrow> string + CartItem list" where
  "addToCart c product =
     (case find (\<lambda>item. productId item = prod_id product) c of
        Some existingItem \<Rightarrow>
          if quantity existingItem \<ge> prod_stock product then Inl ''Not enough stock available''
          else Inr (map (\<lambda>item. if productId item = prod_id product
                                  then item\<lparr>quantity := quantity item + 1\<rparr> else item) c)
      | None \<Rightarrow>
          Inr (c @ [\<lparr>productId = prod_id product, productName = prod_name product, quantity = 1,
                     price = PNum (prod_price product), originalPrice = prod_price product,
                     stock = prod_stock product\<rparr>]))"

text \<open>
  \<^verbatim>\<open>updateQuantity\<close> maps over the cart; the callback alerts when the new quantity
  exceeds the stock recorded in the line and returns the item as it is. The model
  returns the alerts raised together with the cart given to \<^verbatim>\<open>setCart\<close>.
\<close>

definition updateQuantityItem :: "string \<Rightarrow> int \<Rightarrow> CartItem \<Rightarrow> string option \<times> CartItem" where
  "updateQuantityItem pid change item =
     (if productId item = pid then
        (let newQuantity = quantity item + change in
         if newQuantity \<le> 0 then (None, item)
         else if newQuantity > stock item then (Some ''Not enough stock available'', item)
         else (None, item\<lparr>quantity := newQuantity\<rparr>))
      else (None, item))"

definition updateQuantity :: "CartItem list \<Rightarrow> string \<Rightarrow> int \<Rightarrow> string list \<times> CartItem list" where
  "updateQuantity c pid change =
     (List.map_filter (\<lambda>item. fst (updateQuantityItem pid change item)) c,
      map (\<lambda>item. snd (updateQuantityItem pid change item)) c)"

definition updatePrice :: "CartItem list \<Rightarrow> string \<Rightarrow> string \<Rightarrow> CartItem list" where
  "updatePrice c pid newPrice =
     (if newPrice = [] then
        map (\<lambda>item. if productId item = pid then item\<lparr>price := PStr []\<rparr> else item) c
      else
        (case parseFloat newPrice of
           None \<Rightarrow> c
         | Some p \<Rightarrow>
             if p < 0 then c
             else map (\<lambda>item. if productId item = pid then item\<lparr>price := PNum p\<rparr> else item) c))"

definition handlePriceBlur :: "CartItem list \<Rightarrow> string \<Rightarrow> CartItem list" where
  "handlePriceBlur c pid =
     map (\<lambda>item. if productId item = pid \<and> price item = PStr [] then item\<lparr>price := PNum 0\<rparr>
                  else item) c"

definition removeFromCart :: "CartItem list \<Rightarrow> string \<Rightarrow> CartItem list" where
  "removeFromCart c pid = filter (\<lambda>item. productId item \<noteq> pid) c"

section \<open>Totals\<close>

definition itemPrice :: "CartItem \<Rightarrow> number" where
  "itemPrice item = (case price item of PStr s \<Rightarrow> orZero (parseFloat s) | PNum n \<Rightarrow> n)"

definition subtotal :: "CartItem list \<Rightarrow> number" where
  "subtotal c = foldl (\<lambda>sum item. sum + itemPrice item * of_int (quantity item)) 0 c"

definition discountAmount :: "SellState \<Rightarrow> number" where
  "discountAmount s = orZero (parseFloat (discount s))"

definition total :: "SellState \<Rightarrow> number" where
  "total s = max 0 (subtotal (cart s) - discountAmount s)"

section \<open>Payment splits\<close>

definition totalPaid :: "SellState \<Rightarrow> number" where
  "totalPaid s = cash (paymentSplits s) + bank (paymentSplits s) + telebirr (paymentSplits s)"

definition remaining :: "SellState \<Rightarrow> number" where
  "remaining s = total s - totalPaid s"

definition isPaymentComplete :: "SellState \<Rightarrow> bool" where
  "isPaymentComplete s = (if showSplitPayment s then \<bar>remaining s\<bar> < 1 / 100 else True)"

definition isOverpaid :: "SellState \<Rightarrow> bool" where
  "isOverpaid s = (remaining s < - (1 / 100))"

fun getSplit :: "PaymentSplits \<Rightarrow> PaymentMethod \<Rightarrow> number" where
  "getSplit ps Cash = cash ps"
| "getSplit ps Bank = bank ps"
| "getSplit ps Telebirr = telebirr ps"

fun setSplit :: "PaymentSplits \<Rightarrow> PaymentMethod \<Rightarrow> number \<Rightarrow> PaymentSplits" where
  "setSplit ps Cash v = ps\<lparr>cash := v\<rparr>"
| "setSplit ps Bank v = ps\<lparr>bank := v\<rparr>"
| "setSplit ps Telebirr v = ps\<lparr>telebirr := v\<rparr>"

definition updatePaymentSplit :: "SellState \<Rightarrow> PaymentMethod \<Rightarrow> string \<Rightarrow> SellState" where
  "updatePaymentSplit s method v =
     (let amount = orZero (parseFloat v) in
      if amount < 0 then s
      else s\<lparr>paymentSplits := setSplit (paymentSplits s) method amount\<rparr>)"

definition clearPayments :: "SellState \<Rightarrow> SellState" where
  "clearPayments s = s\<lparr>paymentSplits := noSplits\<rparr>"

text \<open>The four payment buttons: three choose a single method, the fourth toggles the split.\<close>

definition selectSingle :: "SellState \<Rightarrow> PaymentMethod \<Rightarrow> SellState" where
  "selectSingle s method = s\<lparr>paymentMethod := method, showSplitPayment := False\<rparr>"

definition toggleSplit :: "SellState \<Rightarrow> SellState" where
  "toggleSplit s = s\<lparr>showSplitPayment := \<not> showSplitPayment s\<rparr>"

definition setDiscount :: "SellState \<Rightarrow> string \<Rightarrow> SellState" where
  "setDiscount s v = s\<lparr>discount := v\<rparr>"

section \<open>The payment computations in binary64\<close>

text \<open>
  The program computes with IEEE doubles: every sum, difference and product is the
  exact result rounded to the nearest double, ties to the even significand. A double
  is kept as the rational it denotes. \<open>round64\<close> rounds a rational to the nearest
  double: \<open>ulpExponent\<close> finds the exponent \<open>e\<close> of the unit in the last place, so
  that the magnitude divided by \<open>2 ^ e\<close> lies between \<open>2 ^ 52\<close> and \<open>2 ^ 53\<close> (or
  \<open>e\<close> is \<open>- 1074\<close>, where the subnormal numbers are), and the magnitude is
  rounded to a multiple of \<open>2 ^ e\<close>. Magnitudes from \<open>2 ^ 1024\<close> on, which the program
  rounds to \<^verbatim>\<open>Infinity\<close>, are outside the model.
\<close>

definition roundHalfEven :: "rat \<Rightarrow> int" where
  "roundHalfEven x =
     (let f = \<lfloor>x\<rfloor>; d = x - of_int f
      in if d < 1 / 2 then f else if 1 / 2 < d then f + 1 else if even f then f else f + 1)"

fun ulpExponent :: "nat \<Rightarrow> rat \<Rightarrow> int \<Rightarrow> int" where
  "ulpExponent 0 x e = e"
| "ulpExponent (Suc n) x e =
     (if 2 ^ 53 \<le> x then ulpExponent n (x / 2) (e + 1)
      else if x < 2 ^ 52 \<and> - 1074 < e then ulpExponent n (x * 2) (e - 1)
      else e)"

definition scale2 :: "rat \<Rightarrow> int \<Rightarrow> rat" where
  "scale2 m e = (if 0 \<le> e then m * 2 ^ nat e else m / 2 ^ nat (- e))"

definition round64 :: "rat \<Rightarrow> number" where
  "round64 x =
     (if x = 0 then 0
      else (let e = ulpExponent 2200 \<bar>x\<bar> 0
            in sgn x * scale2 (of_int (roundHalfEven (scale2 \<bar>x\<bar> (- e)))) e))"

definition jsAdd :: "number \<Rightarrow> number \<Rightarrow> number" where
  "jsAdd a b = round64 (a + b)"

definition jsSub :: "number \<Rightarrow> number \<Rightarrow> number" where
  "jsSub a b = round64 (a - b)"

definition jsMul :: "number \<Rightarrow> number \<Rightarrow> number" where
  "jsMul a b = round64 (a * b)"

text \<open>\<^verbatim>\<open>parseFloat\<close> gives the double nearest to the decimal literal it reads.\<close>

definition parseFloat64 :: "string \<Rightarrow> number option" where
  "parseFloat64 s = map_option round64 (parseFloat s)"

text \<open>
  The totals and the payment computations of the component once more, with the
  arithmetic of the program: the same expressions as \<open>subtotal\<close>, \<open>total\<close>,
  \<open>totalPaid\<close>, \<open>remaining\<close>, \<open>isPaymentComplete\<close> and \<open>updatePaymentSplit\<close>
  above, each operation rounded, and the literal \<^verbatim>\<open>0.01\<close> as the double it is.
  The two versions give the same values wherever no operation rounds, as with whole
  amounts.
\<close>

definition itemPrice64 :: "CartItem \<Rightarrow> number" where
  "itemPrice64 item = (case price item of PStr s \<Rightarrow> orZero (parseFloat64 s) | PNum n \<Rightarrow> n)"

definition subtotal64 :: "CartItem list \<Rightarrow> number" where
  "subtotal64 c = foldl (\<lambda>sum item. jsAdd sum (jsMul (itemPrice64 item) (of_int (quantity item)))) 0 c"

definition discountAmount64 :: "SellState \<Rightarrow> number" where
  "discountAmount64 s = orZero (parseFloat64 (discount s))"

definition total64 :: "SellState \<Rightarrow> number" where
  "total64 s = max 0 (jsSub (subtotal64 (cart s)) (discountAmount64 s))"

definition totalPaid64 :: "SellState \<Rightarrow> number" where
  "totalPaid64 s =
     jsAdd (jsAdd (cash (paymentSplits s)) (bank (paymentSplits s))) (telebirr (paymentSplits s))"

definition remaining64 :: "SellState \<Rightarrow> number" where
  "remaining64 s = jsSub (total64 s) (totalPaid64 s)"

definition isPaymentComplete64 :: "SellState \<Rightarrow> bool" where
  "isPaymentComplete64 s =
     (if showSplitPayment s then \<bar>remaining64 s\<bar> < round64 (1 / 100) else True)"

definition updatePaymentSplit64 :: "SellState \<Rightarrow> PaymentMethod \<Rightarrow> string \<Rightarrow> SellState" where
  "updatePaymentSplit64 s method v =
     (let amount = orZero (parseFloat64 v) in
      if amount < 0 then s
      else s\<lparr>paymentSplits := setSplit (paymentSplits s) method amount\<rparr>)"

text \<open>\<^verbatim>\<open>payAll\<close>, in the arithmetic of the program.\<close>

definition payAll :: "SellState \<Rightarrow> PaymentMethod \<Rightarrow> SellState" where
  "payAll s method =
     (let currentMethodAmount = getSplit (paymentSplits s) method;
          otherMethodsTotal = jsSub (totalPaid64 s) currentMethodAmount;
          amountNeeded = max 0 (jsSub (total64 s) otherMethodsTotal)
      in s\<lparr>paymentSplits := setSplit (paymentSplits s) method amountNeeded\<rparr>)"

section \<open>Completing a sale\<close>

text \<open>
  The arguments of the remote procedure \<^verbatim>\<open>menal_process_sale\<close>, under the
  names the call gives them.
\<close>

record RpcItem =
  i_productId :: string
  i_productName :: string
  i_quantity :: int
  i_price :: number
  i_originalPrice :: number
  i_total :: number

record PaymentDetails =
  d_cash :: number
  d_bank :: number
  d_telebirr :: number
  total_paid :: number
  is_split :: bool

record SaleArgs =
  p_branch_id :: string
  p_customer_id :: "string option"
  p_total :: number
  p_discount :: number
  p_final_total :: number
  p_payment_method :: PaymentMethod
  p_payment_details :: PaymentDetails
  p_items :: "RpcItem list"

definition finalTotal :: "SellState \<Rightarrow> number" where
  "finalTotal s = max 0 (subtotal (cart s) - discountAmount s)"

definition primaryMethod :: "SellState \<Rightarrow> PaymentMethod" where
  "primaryMethod s =
     (if showSplitPayment s then
        (if bank (paymentSplits s) > cash (paymentSplits s)
            \<and> bank (paymentSplits s) > telebirr (paymentSplits s) then Bank
         else if telebirr (paymentSplits s) > cash (paymentSplits s)
            \<and> telebirr (paymentSplits s) > bank (paymentSplits s) then Telebirr
         else Cash)
      else paymentMethod s)"

definition paymentDetails :: "SellState \<Rightarrow> PaymentDetails" where
  "paymentDetails s =
     (if showSplitPayment s then
        \<lparr>d_cash = cash (paymentSplits s), d_bank = bank (paymentSplits s),
         d_telebirr = telebirr (paymentSplits s), total_paid = totalPaid s, is_split = True\<rparr>
      else
        \<lparr>d_cash = (if paymentMethod s = Cash then finalTotal s else 0),
         d_bank = (if paymentMethod s = Bank then finalTotal s else 0),
         d_telebirr = (if paymentMethod s = Telebirr then finalTotal s else 0),
         total_paid = finalTotal s, is_split = False\<rparr>)"

definition rpcItem :: "CartItem \<Rightarrow> RpcItem" where
  "rpcItem item =
     \<lparr>i_productId = productId item, i_productName = productName item,
      i_quantity = quantity item, i_price = itemPrice item, i_originalPrice = itemPrice item,
      i_total = itemPrice item * of_int (quantity item)\<rparr>"

definition rpcItems :: "CartItem list \<Rightarrow> RpcItem list" where
  "rpcItems c = map rpcItem c"

definition trim :: "string \<Rightarrow> string" where
  "trim s = rev (dropWhile isWhiteSpace (rev (dropWhile isWhiteSpace s)))"

text \<open>
  The customer of the sale: the selected one, or else the one created (or found again
  by its phone number) from the name and phone typed in. The calls to the customer
  table are the parameter \<open>createCustomer\<close>, which gives the id when there is one.
\<close>

definition customerId :: "(string \<Rightarrow> string \<Rightarrow> string option) \<Rightarrow> SellState \<Rightarrow> string option" where
  "customerId createCustomer s =
     (case selectedCustomer s of
        Some c \<Rightarrow> Some c
      | None \<Rightarrow>
          if trim (customerName s) \<noteq> [] \<and> trim (customerPhone s) \<noteq> []
          then createCustomer (trim (customerName s)) (trim (customerPhone s))
          else None)"

definition saleArgs :: "(string \<Rightarrow> string \<Rightarrow> string option) \<Rightarrow> SellState \<Rightarrow> SaleArgs" where
  "saleArgs createCustomer s =
     \<lparr>p_branch_id = currentBranchId s,
      p_customer_id = customerId createCustomer s,
      p_total = subtotal (cart s),
      p_discount = discountAmount s,
      p_final_total = finalTotal s,
      p_payment_method = primaryMethod s,
      p_payment_details = paymentDetails s,
      p_items = rpcItems (cart s)\<rparr>"

fun includesStr :: "string \<Rightarrow> string \<Rightarrow> bool" where
  "includesStr [] sub = (sub = [])"
| "includesStr (x # xs) sub = (take (length sub) (x # xs) = sub \<or> includesStr xs sub)"

text \<open>What the operator is shown at the end of \<^verbatim>\<open>handleCompleteSale\<close>.\<close>

datatype notice =
  AlertCartEmpty
| ToastPaymentIncomplete
| ToastError string
| ToastSaleFailed
| ToastSaleCompleted

text \<open>
  The callback that \<^verbatim>\<open>handleCompleteSale\<close> hands to \<^verbatim>\<open>setTimeout\<close>
  after a sale that went through. It runs two seconds later, on the state of that moment.
\<close>

definition saleResetTimeout :: "SellState \<Rightarrow> SellState" where
  "saleResetTimeout s =
     s\<lparr>cart := [], discount := ''0'', paymentSplits := noSplits, showSplitPayment := False,
       showConfirmation := False, selectedCustomer := None, customerName := [],
       customerPhone := []\<rparr>"

text \<open>
  \<^verbatim>\<open>handleCompleteSale\<close>. The remote procedure is the parameter \<open>rpc\<close>, which
  gives the message of the error when the call fails. The result holds the notice, the
  calls made to the remote procedure, the state when the handler ends, and whether the
  reset callback has been scheduled. The tier check that follows an accepted sale
  catches its own errors and touches only the celebration dialog, which this state
  does not hold.
\<close>

record SaleResult =
  shown :: notice
  rpcCalls :: "SaleArgs list"
  stateAfter :: SellState
  resetScheduled :: bool

definition handleCompleteSale ::
  "(SaleArgs \<Rightarrow> string option) \<Rightarrow> (string \<Rightarrow> string \<Rightarrow> string option) \<Rightarrow> SellState \<Rightarrow> SaleResult" where
  "handleCompleteSale rpc createCustomer s =
     (if cart s = [] then
        \<lparr>shown = AlertCartEmpty, rpcCalls = [], stateAfter = s, resetScheduled = False\<rparr>
      else if \<not> isPaymentComplete s then
        \<lparr>shown = ToastPaymentIncomplete, rpcCalls = [], stateAfter = s, resetScheduled = False\<rparr>
      else
        (case rpc (saleArgs createCustomer s) of
           Some message \<Rightarrow>
             \<lparr>shown = (if includesStr message ''Insufficient stock'' then ToastError message
                       else ToastSaleFailed),
              rpcCalls = [saleArgs createCustomer s],
              stateAfter = s\<lparr>processing := False\<rparr>, resetScheduled = False\<rparr>
         | None \<Rightarrow>
             \<lparr>shown = ToastSaleCompleted,
              rpcCalls = [saleArgs createCustomer s],
              stateAfter = s\<lparr>processing := False, showConfirmation := True\<rparr>,
              resetScheduled = True\<rparr>))"

text \<open>
  A submission from start to end: the handler, and then the reset callback when it
  was scheduled.
\<close>

definition submit ::
  "(SaleArgs \<Rightarrow> string option) \<Rightarrow> (string \<Rightarrow> string \<Rightarrow> string option) \<Rightarrow> SellState \<Rightarrow> SellState" where
  "submit rpc createCustomer s =
     (let r = handleCompleteSale rpc createCustomer s in
      if resetScheduled r then saleResetTimeout (stateAfter r) else stateAfter r)"

section \<open>Sequences of cart operations\<close>

text \<open>
  The handlers that change the cart, as operations, and a run of them from a given
  cart. \<open>ClearCart\<close> is the \<^verbatim>\<open>setCart([])\<close> of the reset callback. An
  \<^verbatim>\<open>addToCart\<close> that alerts leaves the cart as it is.
\<close>

datatype cartOp =
  AddToCart Product
| UpdateQuantity string int
| UpdatePrice string string
| PriceBlur string
| RemoveFromCart string
| ClearCart

fun cartStep :: "CartItem list \<Rightarrow> cartOp \<Rightarrow> CartItem list" where
  "cartStep c (AddToCart product) = (case addToCart c product of Inl msg \<Rightarrow> c | Inr c' \<Rightarrow> c')"
| "cartStep c (UpdateQuantity pid change) = snd (updateQuantity c pid change)"
| "cartStep c (UpdatePrice pid newPrice) = updatePrice c pid newPrice"
| "cartStep c (PriceBlur pid) = handlePriceBlur c pid"
| "cartStep c (RemoveFromCart pid) = removeFromCart c pid"
| "cartStep c ClearCart = []"

definition runCart :: "CartItem list \<Rightarrow> cartOp list \<Rightarrow> CartItem list" where
  "runCart c ops = foldl cartStep c ops"

text \<open>
  The resolved price of a line as the specification words it: the number held by the
  line, and \<open>0\<close> for a price that is still text (the unset state). It is compared with
  \<open>itemPrice\<close>, which is what the code computes.
\<close>

definition specResolvedPrice :: "CartItem \<Rightarrow> number" where
  "specResolvedPrice item = (case price item of PNum n \<Rightarrow> n | PStr s \<Rightarrow> 0)"

text \<open>
  A price that is a number or the empty text.
\<close>

fun unsetOrNumber :: "price \<Rightarrow> bool" where
  "unsetOrNumber (PNum n) = True"
| "unsetOrNumber (PStr s) = (s = [])"

text \<open>
  The operations on one product that may follow its first \<open>AddToCart p0\<close>: adding a
  catalogue item of the same id whose stock is at most the stock of \<open>p0\<close>, and changing
  the quantity of that line.
\<close>

fun laterOp :: "Product \<Rightarrow> cartOp \<Rightarrow> bool" where
  "laterOp p0 (AddToCart p) = (prod_id p = prod_id p0 \<and> prod_stock p \<le> prod_stock p0)"
| "laterOp p0 (UpdateQuantity pid change) = (pid = prod_id p0)"
| "laterOp p0 op = False"

text \<open>
  The cart holds one line, for the product \<open>p0\<close>, with the stock of \<open>p0\<close> recorded
  and a quantity between \<open>1\<close> and that stock.
\<close>

definition lineWithin :: "Product \<Rightarrow> CartItem list \<Rightarrow> bool" where
  "lineWithin p0 c =
     (length c = 1 \<and>
      (\<forall>item \<in> set c. productId item = prod_id p0 \<and> stock item = prod_stock p0 \<and>
         1 \<le> quantity item \<and> quantity item \<le> prod_stock p0))"

section \<open>Example data\<close>

text \<open>
  Product A (price 100, stock 5) three times and product B (price 50, stock 2) once:
  a cart with subtotal 350. The remote procedure \<open>rpcOk\<close> accepts every sale, and
  \<open>noCustomer\<close> finds no customer.
\<close>

definition productA :: Product where
  "productA = \<lparr>prod_id = ''A'', prod_name = ''Product A'', prod_category = ''toys'',
      prod_price = 100, prod_stock = 5\<rparr>"

definition productB :: Product where
  "productB = \<lparr>prod_id = ''B'', prod_name = ''Product B'', prod_category = ''toys'',
      prod_price = 50, prod_stock = 2\<rparr>"

definition smallStock :: Product where
  "smallStock = \<lparr>prod_id = ''C'', prod_name = ''Product C'', prod_category = ''toys'',
      prod_price = 80, prod_stock = 1\<rparr>"

definition restocked :: Product where
  "restocked = smallStock\<lparr>prod_stock := 3\<rparr>"

definition exampleCart :: "CartItem list" where
  "exampleCart =
     [\<lparr>productId = ''A'', productName = ''Product A'', quantity = 3, price = PNum 100,
       originalPrice = 100, stock = 5\<rparr>,
      \<lparr>productId = ''B'', productName = ''Product B'', quantity = 1, price = PNum 50,
       originalPrice = 50, stock = 2\<rparr>]"

definition noCustomer :: "string \<Rightarrow> string \<Rightarrow> string option" where
  "noCustomer n p = None"

definition rpcOk :: "SaleArgs \<Rightarrow> string option" where
  "rpcOk a = None"

definition overDiscountState :: SellState where
  "overDiscountState = (initialState ''main'')\<lparr>cart := exampleCart, discount := ''400''\<rparr>"

definition overpaidSplitState :: SellState where
  "overpaidSplitState =
     (initialState ''main'')\<lparr>cart := exampleCart, showSplitPayment := True,
        paymentSplits := \<lparr>cash = 200, bank = 150, telebirr = 10\<rparr>\<rparr>"

definition dormantSplitState :: SellState where
  "dormantSplitState = selectSingle overpaidSplitState Bank"

definition tiedSplitState :: SellState where
  "tiedSplitState =
     (initialState ''main'')\<lparr>cart := exampleCart, showSplitPayment := True,
        paymentSplits := \<lparr>cash = 50, bank = 150, telebirr = 150\<rparr>\<rparr>"

definition unsetPriceState :: SellState where
  "unsetPriceState = (initialState ''main'')\<lparr>cart := updatePrice exampleCart ''B'' []\<rparr>"

definition bankSaleState :: SellState where
  "bankSaleState = selectSingle ((initialState ''main'')\<lparr>cart := exampleCart\<rparr>) Bank"

definition bankOverState :: SellState where
  "bankOverState =
     (initialState ''main'')\<lparr>cart := exampleCart, showSplitPayment := True,
        paymentSplits := \<lparr>cash = 20, bank = 400, telebirr = 0\<rparr>\<rparr>"

definition partSplitState :: SellState where
  "partSplitState =
     (initialState ''main'')\<lparr>cart := exampleCart, showSplitPayment := True,
        paymentSplits := \<lparr>cash = 20, bank = 150, telebirr = 0\<rparr>\<rparr>"

definition exampleOps :: "cartOp list" where
  "exampleOps = [AddToCart productA, AddToCart productA, UpdateQuantity ''A'' 1,
      AddToCart productB, UpdatePrice ''B'' []]"

definition ceilingOps :: "cartOp list" where
  "ceilingOps = [UpdateQuantity ''B'' 1, UpdateQuantity ''B'' 1, AddToCart productB,
     UpdateQuantity ''B'' (- 5)]"

text \<open>
  Three equal parts of 116.67 typed into the split fields against 350 due; 400 on the
  bank against 350 due; and 0.1 on the bank and 0.1 on Telebirr against 100 due.
\<close>

definition thirdsState :: SellState where
  "thirdsState =
     updatePaymentSplit64
       (updatePaymentSplit64
          (updatePaymentSplit64 (toggleSplit ((initialState ''main'')\<lparr>cart := exampleCart\<rparr>))
             Cash ''116.67'')
          Bank ''116.67'')
       Telebirr ''116.67''"

definition hundredCart :: "CartItem list" where
  "hundredCart =
     [\<lparr>productId = ''A'', productName = ''Product A'', quantity = 1, price = PNum 100,
       originalPrice = 100, stock = 5\<rparr>]"

definition tenthsState :: SellState where
  "tenthsState =
     updatePaymentSplit64
       (updatePaymentSplit64 (toggleSplit ((initialState ''main'')\<lparr>cart := hundredCart\<rparr>))
          Bank ''0.1'')
       Telebirr ''0.1''"

section \<open>Evaluation of the examples\<close>

lemmas parse_defs = parseFloat_def parseUnsigned_def isDigit_def isWhiteSpace_def digitsVal_def
  exponentPart_def scale10_def orZero_def

lemma parse_empty: "parseFloat [] = None"
  by (simp add: parseFloat_def)

lemma parse0: "parseFloat ''0'' = Some 0"
  by (simp add: parse_defs)

lemma parse400: "parseFloat ''400'' = Some 400"
  by (simp add: parse_defs)

lemma parse_abc: "parseFloat ''abc'' = None"
  by (simp add: parse_defs)

lemma parse_neg: "parseFloat ''-5'' = Some (- 5)"
  by (simp add: parse_defs)

lemma exampleCart_nonempty: "exampleCart \<noteq> []"
  by (simp add: exampleCart_def)

lemma subtotal_exampleCart: "subtotal exampleCart = 350"
  by (simp add: subtotal_def exampleCart_def itemPrice_def)

lemma unsetPriceState_cart:
  "cart unsetPriceState =
     [\<lparr>productId = ''A'', productName = ''Product A'', quantity = 3, price = PNum 100,
       originalPrice = 100, stock = 5\<rparr>,
      \<lparr>productId = ''B'', productName = ''Product B'', quantity = 1, price = PStr [],
       originalPrice = 50, stock = 2\<rparr>]"
  by (simp add: unsetPriceState_def updatePrice_def exampleCart_def)

lemma runCart_exampleOps:
  "runCart [] exampleOps =
     [\<lparr>productId = ''A'', productName = ''Product A'', quantity = 3, price = PNum 100,
       originalPrice = 100, stock = 5\<rparr>,
      \<lparr>productId = ''B'', productName = ''Product B'', quantity = 1, price = PStr [],
       originalPrice = 50, stock = 2\<rparr>]"
  by (simp add: runCart_def exampleOps_def productA_def productB_def addToCart_def
      updateQuantity_def updateQuantityItem_def updatePrice_def)

lemma runCart_ceilingOps:
  "runCart [] (AddToCart productB # ceilingOps) =
     [\<lparr>productId = ''B'', productName = ''Product B'', quantity = 2, price = PNum 50,
       originalPrice = 50, stock = 2\<rparr>]"
  by (simp add: runCart_def ceilingOps_def productB_def addToCart_def
      updateQuantity_def updateQuantityItem_def)

section \<open>The handler and the arguments of the sale\<close>

lemma sale_args_discount:
  "p_total (saleArgs cc s) = subtotal (cart s) \<and>
   p_discount (saleArgs cc s) = discountAmount s \<and>
   p_final_total (saleArgs cc s) = max 0 (subtotal (cart s) - discountAmount s)"
  by (simp add: saleArgs_def finalTotal_def)

lemma rpcCalls_cases:
  "rpcCalls (handleCompleteSale rpc cc s) =
     (if cart s = [] \<or> \<not> isPaymentComplete s then [] else [saleArgs cc s])"
  by (simp add: handleCompleteSale_def split: option.splits)

lemma handleCompleteSale_rejects:
  "cart s = [] \<or> \<not> isPaymentComplete s \<Longrightarrow>
   rpcCalls (handleCompleteSale rpc cc s) = [] \<and> stateAfter (handleCompleteSale rpc cc s) = s \<and>
   \<not> resetScheduled (handleCompleteSale rpc cc s) \<and>
   shown (handleCompleteSale rpc cc s) = (if cart s = [] then AlertCartEmpty else ToastPaymentIncomplete)"
  by (auto simp add: handleCompleteSale_def)

lemma submit_completed:
  "shown (handleCompleteSale rpc cc s) = ToastSaleCompleted \<Longrightarrow>
   submit rpc cc s = saleResetTimeout (s\<lparr>processing := False, showConfirmation := True\<rparr>)"
  by (auto simp add: submit_def handleCompleteSale_def split: if_splits option.splits)

lemma bankSale_completed:
  "shown (handleCompleteSale rpcOk noCustomer bankSaleState) = ToastSaleCompleted"
  by (simp add: handleCompleteSale_def bankSaleState_def selectSingle_def initialState_def
      exampleCart_nonempty isPaymentComplete_def rpcOk_def)

section \<open>Discount at checkout\<close>

text \<open>
  Claim C1, as amended. Take an entered discount whose amount, as parsed (\<open>0\<close> when the
  text does not parse), is not negative. Every call of the remote procedure made by
  \<^verbatim>\<open>handleCompleteSale\<close> carries the subtotal, that amount as the discount, not
  clamped to the subtotal, and the final total \<open>max 0 (subtotal - discount)\<close>. The final
  total is the subtotal minus \<open>min discount subtotal\<close> and is never negative. When the
  subtotal is not negative, that effective discount lies between \<open>0\<close> and the subtotal,
  and the final total is at most the subtotal.
\<close>

theorem checkout_discount:
  assumes "a \<in> set (rpcCalls (handleCompleteSale rpc cc s))"
    and "0 \<le> discountAmount s"
  shows "p_total a = subtotal (cart s) \<and> p_discount a = discountAmount s \<and>
         p_final_total a = max 0 (subtotal (cart s) - discountAmount s) \<and>
         p_final_total a = subtotal (cart s) - min (discountAmount s) (subtotal (cart s)) \<and>
         0 \<le> p_final_total a \<and>
         (0 \<le> subtotal (cart s) \<longrightarrow>
            0 \<le> min (discountAmount s) (subtotal (cart s)) \<and>
            min (discountAmount s) (subtotal (cart s)) \<le> subtotal (cart s) \<and>
            p_final_total a \<le> subtotal (cart s))"
proof -
  from assms(1) have "a = saleArgs cc s"
    by (simp add: rpcCalls_cases split: if_splits)
  then show ?thesis
    using assms(2) sale_args_discount [of cc s] by auto
qed

text \<open>
  Claim C1 as stated fails: with subtotal 350 and the discount text \<open>400\<close>, the sale is
  sent with discount 400, above the subtotal, and final total 0, which is not
  \<open>350 - 400\<close>.
\<close>

theorem checkout_discount_counterexample:
  "rpcCalls (handleCompleteSale rpcOk noCustomer overDiscountState) = [saleArgs noCustomer overDiscountState] \<and>
   p_total (saleArgs noCustomer overDiscountState) = 350 \<and>
   p_discount (saleArgs noCustomer overDiscountState) = 400 \<and>
   p_final_total (saleArgs noCustomer overDiscountState) = 0 \<and>
   \<not> (p_discount (saleArgs noCustomer overDiscountState) \<le> p_total (saleArgs noCustomer overDiscountState)) \<and>
   p_final_total (saleArgs noCustomer overDiscountState)
     \<noteq> p_total (saleArgs noCustomer overDiscountState) - p_discount (saleArgs noCustomer overDiscountState)"
  by (simp add: rpcCalls_cases sale_args_discount overDiscountState_def initialState_def
      subtotal_exampleCart discountAmount_def parse400 orZero_def isPaymentComplete_def exampleCart_nonempty)

text \<open>
  The amended claim C1 at the same state: the effective discount is 350 and the final
  total 0.
\<close>

theorem checkout_discount_witness:
  "saleArgs noCustomer overDiscountState \<in> set (rpcCalls (handleCompleteSale rpcOk noCustomer overDiscountState)) \<and>
   p_final_total (saleArgs noCustomer overDiscountState) = 0 \<and>
   0 \<le> discountAmount overDiscountState \<and> 0 \<le> subtotal (cart overDiscountState) \<and>
   min (discountAmount overDiscountState) (subtotal (cart overDiscountState)) = 350"
proof -
  have m: "saleArgs noCustomer overDiscountState
      \<in> set (rpcCalls (handleCompleteSale rpcOk noCustomer overDiscountState))"
    by (simp add: rpcCalls_cases overDiscountState_def initialState_def isPaymentComplete_def
        exampleCart_nonempty)
  have v: "discountAmount overDiscountState = 400 \<and> subtotal (cart overDiscountState) = 350"
    by (simp add: overDiscountState_def initialState_def discountAmount_def parse400 orZero_def
        subtotal_exampleCart)
  have d: "0 \<le> discountAmount overDiscountState"
    by (simp add: v)
  show ?thesis
    using m v checkout_discount [OF m d] by simp
qed

section \<open>What blocks a submission\<close>

text \<open>
  Claim C2, as amended. \<^verbatim>\<open>handleCompleteSale\<close> returns without calling the
  remote procedure exactly when the cart is empty or the payment is incomplete, and
  then leaves the state as it is. The prices of the lines play no part: with a cart
  that is not empty and a complete payment the remote procedure is called once, with
  one item per line, and a line whose price is text that does not parse (the empty
  text of the unset state among them) is sent with price 0 and total 0.
\<close>

theorem submit_gate:
  "(rpcCalls (handleCompleteSale rpc cc s) = [] \<longleftrightarrow> cart s = [] \<or> \<not> isPaymentComplete s) \<and>
   (cart s = [] \<or> \<not> isPaymentComplete s \<longrightarrow> stateAfter (handleCompleteSale rpc cc s) = s) \<and>
   (cart s \<noteq> [] \<and> isPaymentComplete s \<longrightarrow>
      rpcCalls (handleCompleteSale rpc cc s) = [saleArgs cc s] \<and>
      p_items (saleArgs cc s) = map rpcItem (cart s)) \<and>
   (price item = PStr str \<and> parseFloat str = None \<longrightarrow>
      i_price (rpcItem item) = 0 \<and> i_total (rpcItem item) = 0)"
  using handleCompleteSale_rejects [of s rpc cc]
  by (auto simp add: rpcCalls_cases saleArgs_def rpcItems_def rpcItem_def itemPrice_def orZero_def)

text \<open>
  Claim C2 as stated fails: the second line of the cart has the unset price, and the
  sale is sent to the remote procedure and the state changes.
\<close>

theorem submit_gate_counterexample:
  "price (cart unsetPriceState ! 1) = PStr [] \<and>
   rpcCalls (handleCompleteSale rpcOk noCustomer unsetPriceState) \<noteq> [] \<and>
   stateAfter (handleCompleteSale rpcOk noCustomer unsetPriceState) \<noteq> unsetPriceState"
proof -
  have c: "isPaymentComplete unsetPriceState"
    by (simp add: isPaymentComplete_def unsetPriceState_def initialState_def)
  have n: "cart unsetPriceState \<noteq> []"
    by (simp add: unsetPriceState_cart)
  have e: "price (cart unsetPriceState ! 1) = PStr []"
    by (simp add: unsetPriceState_cart)
  have r: "rpcOk (saleArgs noCustomer unsetPriceState) = None"
    by (simp add: rpcOk_def)
  have "showConfirmation (stateAfter (handleCompleteSale rpcOk noCustomer unsetPriceState))"
    using c n r by (simp add: handleCompleteSale_def)
  moreover have "\<not> showConfirmation unsetPriceState"
    by (simp add: unsetPriceState_def initialState_def)
  ultimately have "stateAfter (handleCompleteSale rpcOk noCustomer unsetPriceState) \<noteq> unsetPriceState"
    by auto
  then show ?thesis
    using c n e by (simp add: rpcCalls_cases)
qed

text \<open>
  The amended claim C2 at that state, and at the initial state, whose cart is empty.
\<close>

theorem submit_gate_witness:
  "cart unsetPriceState \<noteq> [] \<and> isPaymentComplete unsetPriceState \<and>
   rpcCalls (handleCompleteSale rpcOk noCustomer unsetPriceState) = [saleArgs noCustomer unsetPriceState] \<and>
   price (cart unsetPriceState ! 1) = PStr [] \<and> parseFloat [] = None \<and>
   i_price (rpcItem (cart unsetPriceState ! 1)) = 0 \<and>
   cart (initialState ''main'') = [] \<and>
   rpcCalls (handleCompleteSale rpcOk noCustomer (initialState ''main'')) = [] \<and>
   stateAfter (handleCompleteSale rpcOk noCustomer (initialState ''main'')) = initialState ''main''"
proof -
  have c: "isPaymentComplete unsetPriceState"
    by (simp add: isPaymentComplete_def unsetPriceState_def initialState_def)
  have n: "cart unsetPriceState \<noteq> []"
    by (simp add: unsetPriceState_cart)
  have p: "price (cart unsetPriceState ! 1) = PStr []"
    by (simp add: unsetPriceState_cart)
  have i: "cart (initialState ''main'') = []"
    by (simp add: initialState_def)
  show ?thesis
    using c n p i parse_empty
      submit_gate [of rpcOk noCustomer unsetPriceState "cart unsetPriceState ! 1" "[]"]
      submit_gate [of rpcOk noCustomer "initialState ''main''"]
    by simp
qed

section \<open>Evaluation of the binary64 arithmetic\<close>

lemma ulpExponent_up:
  "0 < n \<Longrightarrow> x < 2 ^ 52 \<Longrightarrow> - 1074 < e \<Longrightarrow>
   ulpExponent n x e = ulpExponent (n - 1) (x * 2) (e - 1)"
  by (cases n) simp_all

lemma ulpExponent_down:
  "0 < n \<Longrightarrow> 2 ^ 53 \<le> x \<Longrightarrow> ulpExponent n x e = ulpExponent (n - 1) (x / 2) (e + 1)"
  by (cases n) simp_all

lemma ulpExponent_stop:
  "2 ^ 52 \<le> x \<Longrightarrow> x < 2 ^ 53 \<Longrightarrow> ulpExponent n x e = e"
  by (cases n) simp_all

lemma floor_numeral_quotient:
  "\<lfloor>numeral a / numeral b :: rat\<rfloor> = numeral a div numeral b"
  using floor_divide_of_int_eq [of "numeral a" "numeral b", where ?'a = rat] by simp

lemmas round64_eval = round64_def roundHalfEven_def scale2_def Let_def
  ulpExponent_up ulpExponent_down ulpExponent_stop floor_numeral_quotient

lemma round64_0: "round64 0 = 0"
  by (simp add: round64_def)

lemma round64_whole:
  "round64 50 = 50" "round64 100 = 100" "round64 300 = 300" "round64 350 = 350"
  "round64 380 = 380" "round64 400 = 400" "round64 420 = 420" "round64 (- 30) = - 30"
  "round64 (- 50) = - 50"
  by (simp_all add: round64_eval)

lemma round64_cent: "round64 (1 / 100) = 5764607523034235 / 576460752303423488"
  by (simp add: round64_eval)

lemma round64_third: "round64 (11667 / 100) = 8209921383208059 / 70368744177664"
  by (simp add: round64_eval)

lemma round64_tenth: "round64 (1 / 10) = 3602879701896397 / 36028797018963968"
  by (simp add: round64_eval)

lemma parse_third: "parseFloat64 ''116.67'' = Some (8209921383208059 / 70368744177664)"
proof -
  have "parseFloat ''116.67'' = Some (11667 / 100)"
    by (simp add: parse_defs)
  then show ?thesis
    by (simp add: parseFloat64_def round64_third)
qed

lemma parse_tenth: "parseFloat64 ''0.1'' = Some (3602879701896397 / 36028797018963968)"
proof -
  have "parseFloat ''0.1'' = Some (1 / 10)"
    by (simp add: parse_defs)
  then show ?thesis
    by (simp add: parseFloat64_def round64_tenth)
qed

lemma discountAmount64_0: "discount s = ''0'' \<Longrightarrow> discountAmount64 s = 0"
  by (simp add: discountAmount64_def parseFloat64_def parse0 orZero_def round64_0)

lemma subtotal64_exampleCart: "subtotal64 exampleCart = 350"
  by (simp add: subtotal64_def exampleCart_def itemPrice64_def jsAdd_def jsMul_def round64_whole)

lemma subtotal64_hundredCart: "subtotal64 hundredCart = 100"
  by (simp add: subtotal64_def hundredCart_def itemPrice64_def jsAdd_def jsMul_def round64_whole)

lemma thirdsState_fields:
  "showSplitPayment thirdsState" "cart thirdsState = exampleCart" "discount thirdsState = ''0''"
  "paymentSplits thirdsState =
     \<lparr>cash = 8209921383208059 / 70368744177664, bank = 8209921383208059 / 70368744177664,
      telebirr = 8209921383208059 / 70368744177664\<rparr>"
  by (simp_all add: thirdsState_def updatePaymentSplit64_def parse_third orZero_def toggleSplit_def
      initialState_def noSplits_def Let_def)

lemma tenthsState_fields:
  "showSplitPayment tenthsState" "cart tenthsState = hundredCart" "discount tenthsState = ''0''"
  "paymentSplits tenthsState =
     \<lparr>cash = 0, bank = 3602879701896397 / 36028797018963968,
      telebirr = 3602879701896397 / 36028797018963968\<rparr>"
  by (simp_all add: tenthsState_def updatePaymentSplit64_def parse_tenth orZero_def toggleSplit_def
      initialState_def noSplits_def Let_def)

lemma bankOverState_fields:
  "showSplitPayment bankOverState" "cart bankOverState = exampleCart" "discount bankOverState = ''0''"
  "paymentSplits bankOverState = \<lparr>cash = 20, bank = 400, telebirr = 0\<rparr>"
  by (simp_all add: bankOverState_def initialState_def)

lemma total64_thirdsState: "total64 thirdsState = 350"
  by (simp add: total64_def thirdsState_fields subtotal64_exampleCart discountAmount64_0 jsSub_def
      round64_whole)

lemma total64_bankOverState: "total64 bankOverState = 350"
  by (simp add: total64_def bankOverState_fields subtotal64_exampleCart discountAmount64_0 jsSub_def
      round64_whole)

lemma total64_tenthsState: "total64 tenthsState = 100"
  by (simp add: total64_def tenthsState_fields subtotal64_hundredCart discountAmount64_0 jsSub_def
      round64_whole)

lemma total64_paymentSplits_update: "total64 (s\<lparr>paymentSplits := ps\<rparr>) = total64 s"
  by (simp add: total64_def discountAmount64_def)

lemma totalPaid64_thirdsState: "totalPaid64 thirdsState = 1539360259351511 / 4398046511104"
  by (simp add: totalPaid64_def thirdsState_fields jsAdd_def) (simp add: round64_eval)

lemma remaining64_thirdsState: "remaining64 thirdsState = - (43980465111 / 4398046511104)"
  by (simp add: remaining64_def total64_thirdsState totalPaid64_thirdsState jsSub_def)
     (simp add: round64_eval)

section \<open>The tender gate\<close>

text \<open>
  Claim C3 fails on the code. With 350 due and 116.67 typed into each of the three
  split fields, the stored amounts sum to 0.01 or more above the amount due. The
  program computes the sum as the double 350.01 and the remainder as the double
  -0.009999999999990905, below the double 0.01 in magnitude, so the payment counts as
  complete and the handler goes on to send the sale, where the claim, and the comment
  in the code (split mode must match the exact total), have the gate stop it.
\<close>

theorem tender_gate_rounding:
  "showSplitPayment thirdsState \<and> cart thirdsState \<noteq> [] \<and>
   cash (paymentSplits thirdsState) = 8209921383208059 / 70368744177664 \<and>
   bank (paymentSplits thirdsState) = 8209921383208059 / 70368744177664 \<and>
   telebirr (paymentSplits thirdsState) = 8209921383208059 / 70368744177664 \<and>
   total64 thirdsState = 350 \<and>
   1 / 100 \<le> \<bar>total64 thirdsState
       - (cash (paymentSplits thirdsState) + bank (paymentSplits thirdsState)
          + telebirr (paymentSplits thirdsState))\<bar> \<and>
   totalPaid64 thirdsState = 1539360259351511 / 4398046511104 \<and>
   remaining64 thirdsState = - (43980465111 / 4398046511104) \<and>
   isPaymentComplete64 thirdsState"
proof -
  have c: "isPaymentComplete64 thirdsState"
    by (simp add: isPaymentComplete64_def remaining64_thirdsState round64_cent)
  have d: "1 / 100 \<le> \<bar>total64 thirdsState
       - (cash (paymentSplits thirdsState) + bank (paymentSplits thirdsState)
          + telebirr (paymentSplits thirdsState))\<bar>"
    by (simp add: total64_thirdsState thirdsState_fields)
  show ?thesis
    using c d
    by (simp add: thirdsState_fields exampleCart_nonempty total64_thirdsState
        totalPaid64_thirdsState remaining64_thirdsState)
qed

section \<open>Paying the remainder with one method\<close>

lemma payAll_bankOverState:
  "paymentSplits (payAll bankOverState Cash) = \<lparr>cash = 0, bank = 400, telebirr = 0\<rparr>"
  by (simp add: payAll_def totalPaid64_def total64_bankOverState bankOverState_fields jsAdd_def
      jsSub_def round64_whole)

lemma payAll_showSplitPayment: "showSplitPayment (payAll s m) = showSplitPayment s"
  by (simp add: payAll_def Let_def)

lemma payAll_total64: "total64 (payAll s m) = total64 s"
  by (simp add: payAll_def Let_def total64_paymentSplits_update)

lemma payAll_tenthsState:
  "paymentSplits (payAll tenthsState Cash) =
     \<lparr>cash = 7022800668930867 / 70368744177664, bank = 3602879701896397 / 36028797018963968,
      telebirr = 3602879701896397 / 36028797018963968\<rparr>"
proof -
  have t: "totalPaid64 tenthsState = 3602879701896397 / 18014398509481984"
    by (simp add: totalPaid64_def tenthsState_fields jsAdd_def round64_0) (simp add: round64_eval)
  have o: "jsSub (totalPaid64 tenthsState) 0 = 3602879701896397 / 18014398509481984"
    by (simp add: t jsSub_def) (simp add: round64_eval)
  have n: "jsSub 100 (3602879701896397 / 18014398509481984) = 7022800668930867 / 70368744177664"
    by (simp add: jsSub_def) (simp add: round64_eval)
  show ?thesis
    by (simp add: payAll_def tenthsState_fields(4) o total64_tenthsState n)
qed

lemma payAll_payAll_tenthsState:
  "cash (paymentSplits (payAll (payAll tenthsState Cash) Cash)) = 1755700167232717 / 17592186044416"
proof -
  have t: "totalPaid64 (payAll tenthsState Cash) = 7036874417766399 / 70368744177664"
    by (simp add: totalPaid64_def payAll_tenthsState jsAdd_def) (simp add: round64_eval)
  have o: "jsSub (totalPaid64 (payAll tenthsState Cash)) (7022800668930867 / 70368744177664)
      = 3518437208883 / 17592186044416"
    by (simp add: t jsSub_def) (simp add: round64_eval)
  have n: "jsSub 100 (3518437208883 / 17592186044416) = 1755700167232717 / 17592186044416"
    by (simp add: jsSub_def) (simp add: round64_eval)
  show ?thesis
    by (simp add: payAll_def [of "payAll tenthsState Cash"] payAll_tenthsState o payAll_total64
        total64_tenthsState n)
qed

text \<open>
  Claim C4 fails on the code. With 350 due, 20 in cash and 400 on the bank,
  \<^verbatim>\<open>payAll\<close> for cash sets cash to 0 and leaves the 400 on the bank, so 400 is
  tendered and the payment is not complete; the claim has it complete, and the comment
  in the code has the other methods reset. With 100 due and 0.1 on the bank and on
  Telebirr, \<^verbatim>\<open>payAll\<close> for cash stores the double 99.8, and a second call stores
  the double 99.80000000000001: the split amounts change.
\<close>

theorem payAll_leaves_others:
  "showSplitPayment (payAll bankOverState Cash) \<and>
   total64 (payAll bankOverState Cash) = 350 \<and>
   paymentSplits (payAll bankOverState Cash) = \<lparr>cash = 0, bank = 400, telebirr = 0\<rparr> \<and>
   totalPaid64 (payAll bankOverState Cash) = 400 \<and>
   remaining64 (payAll bankOverState Cash) = - 50 \<and>
   \<not> isPaymentComplete64 (payAll bankOverState Cash) \<and>
   cash (paymentSplits (payAll tenthsState Cash)) = 7022800668930867 / 70368744177664 \<and>
   cash (paymentSplits (payAll (payAll tenthsState Cash) Cash)) = 1755700167232717 / 17592186044416 \<and>
   paymentSplits (payAll (payAll tenthsState Cash) Cash) \<noteq> paymentSplits (payAll tenthsState Cash)"
proof -
  have s: "showSplitPayment (payAll bankOverState Cash)"
    by (simp add: payAll_showSplitPayment bankOverState_fields)
  have t: "total64 (payAll bankOverState Cash) = 350"
    by (simp add: payAll_total64 total64_bankOverState)
  have p: "totalPaid64 (payAll bankOverState Cash) = 400"
    by (simp add: totalPaid64_def payAll_bankOverState jsAdd_def round64_whole)
  have r: "remaining64 (payAll bankOverState Cash) = - 50"
    by (simp add: remaining64_def t p jsSub_def round64_whole)
  have c: "\<not> isPaymentComplete64 (payAll bankOverState Cash)"
    by (simp add: isPaymentComplete64_def s r round64_cent)
  have a: "cash (paymentSplits (payAll tenthsState Cash)) = 7022800668930867 / 70368744177664"
    by (simp add: payAll_tenthsState)
  have "cash (paymentSplits (payAll (payAll tenthsState Cash) Cash))
      \<noteq> cash (paymentSplits (payAll tenthsState Cash))"
    by (simp add: a payAll_payAll_tenthsState)
  then have n: "paymentSplits (payAll (payAll tenthsState Cash) Cash)
      \<noteq> paymentSplits (payAll tenthsState Cash)"
    by auto
  show ?thesis
    using s t p r c a n by (simp add: payAll_bankOverState payAll_payAll_tenthsState)
qed

section \<open>The primary payment method\<close>

text \<open>
  Claim C5 fails on the code. With a split of 50 in cash, 150 by bank and 150 by
  Telebirr against 350 due, the sale is sent with these amounts and with cash as the
  primary method, although cash holds the smallest amount; the claim, and the comment
  in the code (the method with the highest amount), give the bank.
\<close>

theorem primaryMethod_bank_telebirr_tie:
  "isPaymentComplete tiedSplitState \<and>
   rpcCalls (handleCompleteSale rpcOk noCustomer tiedSplitState) = [saleArgs noCustomer tiedSplitState] \<and>
   d_cash (p_payment_details (saleArgs noCustomer tiedSplitState)) = 50 \<and>
   d_bank (p_payment_details (saleArgs noCustomer tiedSplitState)) = 150 \<and>
   d_telebirr (p_payment_details (saleArgs noCustomer tiedSplitState)) = 150 \<and>
   p_payment_method (saleArgs noCustomer tiedSplitState) = Cash"
proof -
  have t: "total tiedSplitState = 350 \<and> totalPaid tiedSplitState = 350"
    by (simp add: total_def totalPaid_def tiedSplitState_def initialState_def subtotal_exampleCart
      discountAmount_def parse0 orZero_def)
  have c: "isPaymentComplete tiedSplitState"
    by (simp add: isPaymentComplete_def remaining_def t)
  have ne: "cart tiedSplitState \<noteq> []"
    by (simp add: tiedSplitState_def exampleCart_nonempty)
  have d: "showSplitPayment tiedSplitState \<and> paymentSplits tiedSplitState = \<lparr>cash = 50, bank = 150, telebirr = 150\<rparr>"
    by (simp add: tiedSplitState_def)
  show ?thesis
    using c ne d by (simp add: rpcCalls_cases saleArgs_def paymentDetails_def primaryMethod_def)
qed

section \<open>After a sale that went through\<close>

text \<open>
  Claim C6, as amended. After a submission that the remote procedure accepts, once
  the reset callback has run, the cart is empty, the discount text is \<open>0\<close> (so the
  discount amount is 0), the three split amounts are 0 and the mode is single; the
  single payment method is the one selected before the submission. The callback
  gives the same on whatever state \<open>s'\<close> it runs.
\<close>

theorem submit_clears_state:
  assumes "shown (handleCompleteSale rpc cc s) = ToastSaleCompleted"
  shows "cart (submit rpc cc s) = [] \<and>
         discount (submit rpc cc s) = ''0'' \<and>
         discountAmount (submit rpc cc s) = 0 \<and>
         paymentSplits (submit rpc cc s) = \<lparr>cash = 0, bank = 0, telebirr = 0\<rparr> \<and>
         showSplitPayment (submit rpc cc s) = False \<and>
         paymentMethod (submit rpc cc s) = paymentMethod s \<and>
         cart (saleResetTimeout s') = [] \<and> discount (saleResetTimeout s') = ''0'' \<and>
         paymentSplits (saleResetTimeout s') = \<lparr>cash = 0, bank = 0, telebirr = 0\<rparr> \<and>
         showSplitPayment (saleResetTimeout s') = False \<and>
         paymentMethod (saleResetTimeout s') = paymentMethod s'"
  by (simp add: submit_completed [OF assms] saleResetTimeout_def noSplits_def discountAmount_def
      parse0 orZero_def)

text \<open>
  Claim C6 as stated fails: after a sale paid by bank in single mode, the method is
  still the bank and not cash.
\<close>

theorem submit_clears_state_counterexample:
  "shown (handleCompleteSale rpcOk noCustomer bankSaleState) = ToastSaleCompleted \<and>
   paymentMethod (submit rpcOk noCustomer bankSaleState) \<noteq> Cash"
proof -
  have m: "paymentMethod bankSaleState = Bank"
    by (simp add: bankSaleState_def selectSingle_def)
  have "paymentMethod (submit rpcOk noCustomer bankSaleState) = Bank"
    by (simp add: submit_completed [OF bankSale_completed] saleResetTimeout_def m)
  then show ?thesis
    using bankSale_completed by simp
qed

text \<open>
  The amended claim C6 at that sale.
\<close>

theorem submit_clears_state_witness:
  "shown (handleCompleteSale rpcOk noCustomer bankSaleState) = ToastSaleCompleted \<and>
   cart (submit rpcOk noCustomer bankSaleState) = [] \<and>
   discountAmount (submit rpcOk noCustomer bankSaleState) = 0 \<and>
   showSplitPayment (submit rpcOk noCustomer bankSaleState) = False \<and>
   paymentMethod (submit rpcOk noCustomer bankSaleState) = Bank"
proof -
  have "paymentMethod bankSaleState = Bank"
    by (simp add: bankSaleState_def selectSingle_def)
  then show ?thesis
    using bankSale_completed submit_clears_state [OF bankSale_completed] by simp
qed

section \<open>The quantity of a line\<close>

lemma addToCart_single:
  assumes "productId item = prod_id p"
  shows "addToCart [item] p =
     (if quantity item \<ge> prod_stock p then Inl ''Not enough stock available''
      else Inr [item\<lparr>quantity := quantity item + 1\<rparr>])"
  using assms by (simp add: addToCart_def)

lemma updateQuantity_single:
  assumes "productId item = pid"
  shows "updateQuantity [item] pid change =
     (if quantity item + change \<le> 0 then ([], [item])
      else if quantity item + change > stock item then ([''Not enough stock available''], [item])
      else ([], [item\<lparr>quantity := quantity item + change\<rparr>]))"
  using assms by (simp add: updateQuantity_def updateQuantityItem_def Let_def List.map_filter_def)

lemma lineWithin_step:
  assumes "lineWithin p0 c" and "laterOp p0 op"
  shows "lineWithin p0 (cartStep c op)"
proof -
  from assms(1) obtain item where c: "c = [item]"
    and i: "productId item = prod_id p0" "stock item = prod_stock p0"
      "1 \<le> quantity item" "quantity item \<le> prod_stock p0"
    by (cases c) (auto simp add: lineWithin_def)
  show ?thesis
  proof (cases op)
    case (AddToCart p)
    with assms(2) have "prod_id p = prod_id p0" "prod_stock p \<le> prod_stock p0"
      by simp_all
    then show ?thesis
      using AddToCart c i by (simp add: addToCart_single lineWithin_def)
  next
    case (UpdateQuantity pid change)
    with assms(2) have "pid = prod_id p0"
      by simp
    then show ?thesis
      using UpdateQuantity c i by (simp add: updateQuantity_single lineWithin_def)
  qed (use assms(2) in simp_all)
qed

lemma lineWithin_first:
  "1 \<le> prod_stock p0 \<Longrightarrow> lineWithin p0 (cartStep [] (AddToCart p0))"
  by (simp add: addToCart_def lineWithin_def)

lemma lineWithin_foldl:
  "lineWithin p0 c \<Longrightarrow> \<forall>op \<in> set ops. laterOp p0 op \<Longrightarrow> lineWithin p0 (foldl cartStep c ops)"
proof (induction ops arbitrary: c)
  case Nil
  then show ?case by simp
next
  case (Cons op ops)
  then show ?case
    using lineWithin_step [of p0 c op] by simp
qed

lemma lineWithin_rejected:
  assumes "lineWithin p0 c"
  shows "(addToCart c p = Inl msg \<longrightarrow> cartStep c (AddToCart p) = c) \<and>
         (fst (updateQuantity c pid change) \<noteq> [] \<longrightarrow> cartStep c (UpdateQuantity pid change) = c) \<and>
         ((\<exists>item \<in> set c. productId item = pid \<and> quantity item + change \<le> 0) \<longrightarrow>
            cartStep c (UpdateQuantity pid change) = c)"
proof -
  from assms obtain item where c: "c = [item]"
    by (cases c) (auto simp add: lineWithin_def)
  show ?thesis
    unfolding c
    by (cases "productId item = pid")
       (auto simp add: updateQuantity_def updateQuantityItem_def Let_def
          List.map_filter_def split: if_splits)
qed

text \<open>
  Claim C7, as amended. Start from the empty cart and add a product \<open>p0\<close> whose stock
  is at least 1; then run any sequence of \<^verbatim>\<open>addToCart\<close> calls that pass a
  catalogue item of the same id with stock at most the stock of \<open>p0\<close>, and
  \<^verbatim>\<open>updateQuantity\<close> calls on that id. The cart then holds one line, with the stock
  of \<open>p0\<close> recorded and a quantity between 1 and that stock. On such a cart a call
  that is rejected (an \<^verbatim>\<open>addToCart\<close> that alerts, an \<^verbatim>\<open>updateQuantity\<close>
  that alerts or whose new quantity is 0 or less) leaves the cart unchanged.
\<close>

theorem quantity_ceiling:
  assumes "1 \<le> prod_stock p0" and "\<forall>op \<in> set ops. laterOp p0 op"
  shows "length (runCart [] (AddToCart p0 # ops)) = 1 \<and>
         (\<forall>item \<in> set (runCart [] (AddToCart p0 # ops)).
            productId item = prod_id p0 \<and> stock item = prod_stock p0 \<and>
            1 \<le> quantity item \<and> quantity item \<le> prod_stock p0) \<and>
         (addToCart (runCart [] (AddToCart p0 # ops)) p = Inl msg \<longrightarrow>
            cartStep (runCart [] (AddToCart p0 # ops)) (AddToCart p) = runCart [] (AddToCart p0 # ops)) \<and>
         (fst (updateQuantity (runCart [] (AddToCart p0 # ops)) pid change) \<noteq> [] \<longrightarrow>
            cartStep (runCart [] (AddToCart p0 # ops)) (UpdateQuantity pid change)
              = runCart [] (AddToCart p0 # ops)) \<and>
         ((\<exists>item \<in> set (runCart [] (AddToCart p0 # ops)).
              productId item = pid \<and> quantity item + change \<le> 0) \<longrightarrow>
            cartStep (runCart [] (AddToCart p0 # ops)) (UpdateQuantity pid change)
              = runCart [] (AddToCart p0 # ops))"
proof -
  have w: "lineWithin p0 (runCart [] (AddToCart p0 # ops))"
    using lineWithin_foldl [OF lineWithin_first [OF assms(1)] assms(2)]
    by (simp add: runCart_def)
  show ?thesis
    using w lineWithin_rejected [OF w, of p msg pid change]
    by (simp add: lineWithin_def)
qed

text \<open>
  Claim C7 as stated fails: \<^verbatim>\<open>addToCart\<close> compares the quantity with the stock of
  the catalogue item passed in, not with the stock recorded in the line. A product
  first added with stock 1 and added again after the catalogue shows stock 3 has
  quantity 2 against a recorded stock of 1.
\<close>

theorem quantity_ceiling_counterexample:
  "map productId (runCart [] [AddToCart smallStock, AddToCart restocked]) = [''C''] \<and>
   map quantity (runCart [] [AddToCart smallStock, AddToCart restocked]) = [2] \<and>
   map stock (runCart [] [AddToCart smallStock, AddToCart restocked]) = [1]"
  by (simp add: runCart_def smallStock_def restocked_def addToCart_def)

text \<open>
  The amended claim C7 for product B (stock 2): after one more, a rejected second
  more, a rejected add and a rejected decrease by 5 the quantity is 2, and further
  rejected calls leave the cart as it is.
\<close>

theorem quantity_ceiling_witness:
  "1 \<le> prod_stock productB \<and> list_all (laterOp productB) ceilingOps \<and>
   map quantity (runCart [] (AddToCart productB # ceilingOps)) = [2] \<and>
   addToCart (runCart [] (AddToCart productB # ceilingOps)) productB = Inl ''Not enough stock available'' \<and>
   cartStep (runCart [] (AddToCart productB # ceilingOps)) (AddToCart productB)
     = runCart [] (AddToCart productB # ceilingOps) \<and>
   fst (updateQuantity (runCart [] (AddToCart productB # ceilingOps)) ''B'' 1) \<noteq> [] \<and>
   cartStep (runCart [] (AddToCart productB # ceilingOps)) (UpdateQuantity ''B'' 1)
     = runCart [] (AddToCart productB # ceilingOps) \<and>
   cartStep (runCart [] (AddToCart productB # ceilingOps)) (UpdateQuantity ''B'' (- 2))
     = runCart [] (AddToCart productB # ceilingOps)"
proof -
  have h1: "1 \<le> prod_stock productB"
    by (simp add: productB_def)
  have h2: "\<forall>op \<in> set ceilingOps. laterOp productB op"
    by (simp add: ceilingOps_def productB_def)
  have a: "addToCart (runCart [] (AddToCart productB # ceilingOps)) productB
      = Inl ''Not enough stock available''"
    by (simp only: runCart_ceilingOps) (simp add: addToCart_def productB_def)
  have u: "fst (updateQuantity (runCart [] (AddToCart productB # ceilingOps)) ''B'' 1) \<noteq> []"
    by (simp add: runCart_ceilingOps updateQuantity_def updateQuantityItem_def List.map_filter_def)
  have l: "list_all (laterOp productB) ceilingOps"
    using h2 by (simp add: list_all_iff)
  have f: "\<exists>item \<in> set (runCart [] (AddToCart productB # ceilingOps)).
      productId item = ''B'' \<and> quantity item + (- 2) \<le> 0"
    by (simp add: runCart_ceilingOps)
  have q: "map quantity (runCart [] (AddToCart productB # ceilingOps)) = [2]"
    by (simp add: runCart_ceilingOps)
  show ?thesis
    using h1 l a u f q
      quantity_ceiling [OF h1 h2, where p = productB and msg = "''Not enough stock available''"
        and pid = "''B''" and change = 1]
      quantity_ceiling [OF h1 h2, where p = productB and msg = "''Not enough stock available''"
        and pid = "''B''" and change = "- 2"]
    by simp
qed

section \<open>The subtotal\<close>

lemma foldl_plus_sum_list:
  "foldl (\<lambda>sum item. sum + f item) a c = a + sum_list (map f c)"
  for a :: number
  by (induction c arbitrary: a) simp_all

lemma subtotal_sum_list:
  "subtotal c = sum_list (map (\<lambda>item. itemPrice item * of_int (quantity item)) c)"
  by (simp add: subtotal_def foldl_plus_sum_list)

lemma itemPrice_resolved:
  "unsetOrNumber (price item) \<Longrightarrow> itemPrice item = specResolvedPrice item"
  by (cases "price item") (simp_all add: itemPrice_def specResolvedPrice_def parse_empty orZero_def)

lemma cartStep_prices:
  assumes "\<forall>item \<in> set c. unsetOrNumber (price item)"
  shows "\<forall>item \<in> set (cartStep c op). unsetOrNumber (price item)"
proof (cases op)
  case (AddToCart product)
  then show ?thesis
    using assms by (auto simp add: addToCart_def split: option.splits if_splits)
next
  case (UpdateQuantity pid change)
  then show ?thesis
    using assms by (auto simp add: updateQuantity_def updateQuantityItem_def Let_def)
next
  case (UpdatePrice pid newPrice)
  then show ?thesis
    using assms by (auto simp add: updatePrice_def split: option.splits if_splits)
next
  case (PriceBlur pid)
  then show ?thesis
    using assms by (auto simp add: handlePriceBlur_def)
next
  case (RemoveFromCart pid)
  then show ?thesis
    using assms by (auto simp add: removeFromCart_def)
next
  case ClearCart
  then show ?thesis by simp
qed

lemma runCart_prices:
  "\<forall>item \<in> set (runCart [] ops). unsetOrNumber (price item)"
proof (induction ops rule: rev_induct)
  case Nil
  then show ?case by (simp add: runCart_def)
next
  case (snoc op ops)
  then show ?case
    using cartStep_prices [of "runCart [] ops" op] by (simp add: runCart_def)
qed

text \<open>
  Claim C8. For every cart reached from the empty cart by the operations of the
  engine, the subtotal is the sum over the lines of the quantity times the resolved
  price; a price held as text in such a cart is the empty text, and resolves to 0.
\<close>

theorem subtotal_correct:
  "subtotal (runCart [] ops)
     = sum_list (map (\<lambda>item. of_int (quantity item) * specResolvedPrice item) (runCart [] ops)) \<and>
   (\<forall>item \<in> set (runCart [] ops). \<forall>s. price item = PStr s \<longrightarrow> s = [] \<and> specResolvedPrice item = 0)"
proof -
  have eq: "itemPrice item * of_int (quantity item) = of_int (quantity item) * specResolvedPrice item"
    if "item \<in> set (runCart [] ops)" for item
    using that runCart_prices [of ops] by (simp add: itemPrice_resolved mult.commute)
  have "sum_list (map (\<lambda>item. itemPrice item * of_int (quantity item)) (runCart [] ops))
      = sum_list (map (\<lambda>item. of_int (quantity item) * specResolvedPrice item) (runCart [] ops))"
    by (rule arg_cong [where f = sum_list], rule map_cong [OF refl]) (rule eq)
  then have sub: "subtotal (runCart [] ops)
      = sum_list (map (\<lambda>item. of_int (quantity item) * specResolvedPrice item) (runCart [] ops))"
    by (simp only: subtotal_sum_list)
  have "\<forall>item \<in> set (runCart [] ops). \<forall>s. price item = PStr s \<longrightarrow> s = [] \<and> specResolvedPrice item = 0"
    using runCart_prices [of ops] by (auto simp add: specResolvedPrice_def)
  with sub show ?thesis
    by (rule conjI)
qed

text \<open>
  Claim C8 at a cart with three of product A and one of product B whose price has been
  cleared: the subtotal is 300.
\<close>

theorem subtotal_correct_witness:
  "subtotal (runCart [] exampleOps) = 300 \<and>
   sum_list (map (\<lambda>item. of_int (quantity item) * specResolvedPrice item) (runCart [] exampleOps)) = 300 \<and>
   runCart [] exampleOps ! 1 \<in> set (runCart [] exampleOps) \<and>
   price (runCart [] exampleOps ! 1) = PStr [] \<and>
   specResolvedPrice (runCart [] exampleOps ! 1) = 0"
proof -
  have "sum_list (map (\<lambda>item. of_int (quantity item) * specResolvedPrice item) (runCart [] exampleOps)) = 300"
    by (simp add: runCart_exampleOps specResolvedPrice_def)
  moreover have "runCart [] exampleOps ! 1 \<in> set (runCart [] exampleOps) \<and>
      price (runCart [] exampleOps ! 1) = PStr []"
    by (simp add: runCart_exampleOps)
  ultimately show ?thesis
    using subtotal_correct [of exampleOps] by auto
qed

section \<open>Input that is negative or not a number\<close>

text \<open>
  Claim C9, as amended. \<^verbatim>\<open>updatePrice\<close> leaves the cart unchanged when the text is
  not empty and does not parse, and when it parses to a negative number.
  \<^verbatim>\<open>updatePaymentSplit\<close> leaves the state unchanged when the text parses to a
  negative number; text that does not parse is taken as 0 and stored for the method.
\<close>

theorem invalid_input:
  "(newPrice \<noteq> [] \<and> parseFloat newPrice = None \<longrightarrow> updatePrice c pid newPrice = c) \<and>
   (parseFloat newPrice = Some p \<and> p < 0 \<longrightarrow> updatePrice c pid newPrice = c) \<and>
   (parseFloat v = Some a \<and> a < 0 \<longrightarrow> updatePaymentSplit s m v = s) \<and>
   (parseFloat v = None \<longrightarrow>
      updatePaymentSplit s m v = s\<lparr>paymentSplits := setSplit (paymentSplits s) m 0\<rparr>)"
  by (auto simp add: updatePrice_def updatePaymentSplit_def orZero_def parse_empty)

text \<open>
  Claim C9 as stated fails: with 20 stored for cash, the text \<open>abc\<close> stores 0.
\<close>

theorem invalid_input_counterexample:
  "parseFloat ''abc'' = None \<and>
   cash (paymentSplits partSplitState) = 20 \<and>
   cash (paymentSplits (updatePaymentSplit partSplitState Cash ''abc'')) = 0"
  by (simp add: parse_abc updatePaymentSplit_def orZero_def partSplitState_def)

text \<open>
  The amended claim C9 at the texts \<open>abc\<close> and \<open>-5\<close>.
\<close>

theorem invalid_input_witness:
  "''abc'' \<noteq> [] \<and> parseFloat ''abc'' = None \<and> updatePrice exampleCart ''A'' ''abc'' = exampleCart \<and>
   parseFloat ''-5'' = Some (- 5) \<and> (- 5 :: number) < 0 \<and>
   updatePrice exampleCart ''A'' ''-5'' = exampleCart \<and>
   updatePaymentSplit partSplitState Bank ''-5'' = partSplitState \<and>
   updatePaymentSplit partSplitState Bank ''abc''
     = partSplitState\<lparr>paymentSplits := setSplit (paymentSplits partSplitState) Bank 0\<rparr>"
  using parse_abc parse_neg
    invalid_input [of "''abc''" exampleCart "''A''" undefined "''-5''" "- 5" partSplitState Bank]
    invalid_input [of "''-5''" exampleCart "''A''" "- 5" "''abc''" undefined partSplitState Bank]
  by simp

section \<open>Overpaid in single mode\<close>

text \<open>
  Claim C10. \<^verbatim>\<open>isOverpaid\<close> does not depend on the mode. In single mode, when the
  stored split amounts sum to more than the amount due plus 0.01, \<^verbatim>\<open>isOverpaid\<close>
  holds while the payment is complete, \<^verbatim>\<open>handleCompleteSale\<close> does not stop at the
  payment check, and with a cart that is not empty the sale is sent.
\<close>

theorem overpaid_in_single_mode:
  assumes "\<not> showSplitPayment s" and "totalPaid s > total s + 1 / 100"
  shows "isOverpaid s \<and> isPaymentComplete s \<and>
         isOverpaid (s\<lparr>showSplitPayment := b\<rparr>) = isOverpaid s \<and>
         shown (handleCompleteSale rpc cc s) \<noteq> ToastPaymentIncomplete \<and>
         (cart s \<noteq> [] \<longrightarrow> rpcCalls (handleCompleteSale rpc cc s) = [saleArgs cc s])"
proof -
  have o: "isOverpaid s"
    using assms(2) by (simp add: isOverpaid_def remaining_def)
  have c: "isPaymentComplete s"
    using assms(1) by (simp add: isPaymentComplete_def)
  have i: "isOverpaid (s\<lparr>showSplitPayment := b\<rparr>) = isOverpaid s"
    by (simp add: isOverpaid_def remaining_def total_def totalPaid_def discountAmount_def)
  have n: "shown (handleCompleteSale rpc cc s) \<noteq> ToastPaymentIncomplete"
    using c by (simp add: handleCompleteSale_def split: option.splits)
  show ?thesis
    using o c i n by (simp add: rpcCalls_cases)
qed

text \<open>
  Claim C10 at the split of 200, 150 and 10 against 350 due, after the bank button has
  put the sale in single mode.
\<close>

theorem overpaid_in_single_mode_witness:
  "\<not> showSplitPayment dormantSplitState \<and>
   totalPaid dormantSplitState > total dormantSplitState + 1 / 100 \<and>
   isOverpaid dormantSplitState \<and> isPaymentComplete dormantSplitState \<and>
   rpcCalls (handleCompleteSale rpcOk noCustomer dormantSplitState) = [saleArgs noCustomer dormantSplitState]"
proof -
  have h1: "\<not> showSplitPayment dormantSplitState"
    by (simp add: dormantSplitState_def selectSingle_def)
  have t: "total dormantSplitState = 350 \<and> totalPaid dormantSplitState = 360"
    by (simp add: total_def totalPaid_def dormantSplitState_def selectSingle_def overpaidSplitState_def
        initialState_def subtotal_exampleCart discountAmount_def parse0 orZero_def)
  have h2: "totalPaid dormantSplitState > total dormantSplitState + 1 / 100"
    by (simp add: t)
  have ne: "cart dormantSplitState \<noteq> []"
    by (simp add: dormantSplitState_def selectSingle_def overpaidSplitState_def exampleCart_nonempty)
  show ?thesis
    using h1 h2 ne overpaid_in_single_mode [OF h1 h2, where rpc = rpcOk and cc = noCustomer] by simp
qed

end
